theory Spec2Isabelle
  imports Main "HOL-Library.Sublist"
begin

section \<open>Values shared by the two packages\<close>

text \<open>
  A Go \<^verbatim>\<open>error\<close> is observed through its message. \<^verbatim>\<open>fmt.Errorf\<close> builds the
  message; a nil error is \<open>None\<close> of \<open>error option\<close>. \<open>Collision\<close> is the error of
  the commit step \<^verbatim>\<open>SetValue\<close>, which is not in the source files and to which the spec
  gives a kind and no message.
\<close>

datatype error = Errorf string | Collision

text \<open>
  The dynamic values the decoder puts behind \<^verbatim>\<open>interface{}\<close>: strings, numbers,
  booleans, null, \<^verbatim>\<open>[]interface{}\<close> and \<^verbatim>\<open>map[string]interface{}\<close>. No function
  of the two source files looks inside a number, so its payload is an integer.

  A Go map is an association list. \<^verbatim>\<open>range\<close> over a map visits the entries in an
  order Go leaves open; the order of the list stands for the order of that visit, and a
  statement about every list is a statement about every order. Indexing is
  \<^const>\<open>map_of\<close>.
\<close>

datatype json =
    JString string
  | JNumber int
  | JBool bool
  | JNull
  | JArray "json list"
  | JObject "(string \<times> json) list"

type_synonym JSONLD = "(string \<times> json) list"

definition JSON_LD_CONTEXT :: string where
  "JSON_LD_CONTEXT = ''@context''"

text \<open>The comma-ok type assertion \<^verbatim>\<open>s, ok := i.(string)\<close>: the zero string when it fails.\<close>

fun assertString :: "json \<Rightarrow> string \<times> bool" where
  "assertString (JString s) = (s, True)"
| "assertString _ = ([], False)"

section \<open>parse.go: resolving the context of a document\<close>

text \<open>
  \<^verbatim>\<open>RDFRegistry\<close> is declared outside the two source files; the resolver uses three
  of its methods and nothing else, so a registry is the record of these three. Each
  returns a slice of nodes and an error, both at once, as the Go methods do. The nodes are
  opaque to the resolver: a type parameter. A nil slice and an empty slice are both \<open>[]\<close>.
\<close>

record 'n RDFRegistry =
  getFor :: "string \<Rightarrow> 'n list \<times> error option"
  getAliased :: "string \<Rightarrow> string \<Rightarrow> 'n list \<times> error option"
  getAliasedObject :: "string \<Rightarrow> (string \<times> json) list \<Rightarrow> 'n list \<times> error option"

text \<open>
  The loop of lines 49 to 68 over the entries of a dictionary that is an element of the
  array. The third argument is the named result \<^verbatim>\<open>nodes\<close> as it stands when the loop
  is entered; a bare \<^verbatim>\<open>return\<close> gives back what has been accumulated so far together
  with the error.
\<close>

fun dictInArray ::
  "'n RDFRegistry \<Rightarrow> (string \<times> json) list \<Rightarrow> 'n list \<Rightarrow> 'n list \<times> error option" where
  "dictInArray registry [] nodes = (nodes, None)"
| "dictInArray registry ((alias, val) # valMap) nodes =
     (case val of
        JString s \<Rightarrow>
          (case getAliased registry alias s of
             (n, Some err) \<Rightarrow> (nodes, Some err)
           | (n, None) \<Rightarrow> dictInArray registry valMap (nodes @ n))
      | JObject aliasedMap \<Rightarrow>
          (case getAliasedObject registry alias aliasedMap of
             (n, Some err) \<Rightarrow> (nodes, Some err)
           | (n, None) \<Rightarrow> dictInArray registry valMap (nodes @ n))
      | _ \<Rightarrow>
          (nodes, Some (Errorf
             ''@context value in dict in array is neither a dict nor a string'')))"

text \<open>The loop of lines 46 to 81 over the elements of the array.\<close>

fun inArrayLoop ::
  "'n RDFRegistry \<Rightarrow> json list \<Rightarrow> 'n list \<Rightarrow> 'n list \<times> error option" where
  "inArrayLoop registry [] nodes = (nodes, None)"
| "inArrayLoop registry (iVal # inArray) nodes =
     (case iVal of
        JObject valMap \<Rightarrow>
          (case dictInArray registry valMap nodes of
             (nodes', Some err) \<Rightarrow> (nodes', Some err)
           | (nodes', None) \<Rightarrow> inArrayLoop registry inArray nodes')
      | JString s \<Rightarrow>
          (case getFor registry s of
             (n, Some err) \<Rightarrow> (nodes, Some err)
           | (n, None) \<Rightarrow> inArrayLoop registry inArray (nodes @ n))
      | _ \<Rightarrow>
          (nodes, Some (Errorf ''@context value in array is neither a dict nor a string'')))"

text \<open>The loop of lines 84 to 103 over the entries of a top-level dictionary.\<close>

fun inMapLoop ::
  "'n RDFRegistry \<Rightarrow> (string \<times> json) list \<Rightarrow> 'n list \<Rightarrow> 'n list \<times> error option" where
  "inMapLoop registry [] nodes = (nodes, None)"
| "inMapLoop registry ((alias, iVal) # inMap) nodes =
     (case iVal of
        JString s \<Rightarrow>
          (case getAliased registry alias s of
             (n, Some err) \<Rightarrow> (nodes, Some err)
           | (n, None) \<Rightarrow> inMapLoop registry inMap (nodes @ n))
      | JObject aliasedMap \<Rightarrow>
          (case getAliasedObject registry alias aliasedMap of
             (n, Some err) \<Rightarrow> (nodes, Some err)
           | (n, None) \<Rightarrow> inMapLoop registry inMap (nodes @ n))
      | _ \<Rightarrow>
          (nodes, Some (Errorf ''@context value in dict is neither a dict nor a string'')))"

text \<open>
  The last branch (lines 104 to 111) asserts a string, assigns the error when the
  assertion fails, and then returns the two results of \<^verbatim>\<open>registry.getFor(s)\<close>: the
  \<^verbatim>\<open>return\<close> with operands assigns both named results, so the error assigned just
  before is overwritten. The binding \<open>err\<close> below is that assignment.
\<close>

definition parseJSONLDContext ::
  "'n RDFRegistry \<Rightarrow> JSONLD \<Rightarrow> 'n list \<times> error option" where
  "parseJSONLDContext registry input =
     (case map_of input JSON_LD_CONTEXT of
        None \<Rightarrow> ([], Some (Errorf ''no @context in input''))
      | Some i \<Rightarrow>
          (case i of
             JArray inArray \<Rightarrow> inArrayLoop registry inArray []
           | JObject inMap \<Rightarrow> inMapLoop registry inMap []
           | _ \<Rightarrow>
               (let (s, ok) = assertString i;
                    err = (if \<not> ok
                           then Some (Errorf ''single @context value is not a string'')
                           else None)
                in getFor registry s)))"

section \<open>The vocabulary model\<close>

text \<open>
  The values \<^verbatim>\<open>Apply\<close> stores are built with the code generation library
  \<^verbatim>\<open>jen\<close>: each is a piece of Go syntax. The items the source file uses are the
  constructors below. \<^verbatim>\<open>jen.A(...).B(...).C(...)\<close> chains items into one statement,
  written \<open>Statement [A ..., B ..., C ...]\<close>; a statement of a single item is written as
  the item.
\<close>

datatype Code =
    jen_Id string
  | jen_Nil
  | jen_Lit string
  | jen_String
  | jen_Op string
  | jen_Else
  | jen_Qual string string
  | jen_Return "Code list"
  | jen_List "Code list"
  | jen_Assert Code
  | jen_Call "Code list"
  | jen_If "Code list"
  | jen_Block "Code list"
  | Statement "Code list"

text \<open>
  Modelled from the spec: \<^verbatim>\<open>codegen.This()\<close>, \<^verbatim>\<open>rdf.SerializeValueFunction\<close>,
  \<^verbatim>\<open>rdf.DeserializeValueFunction\<close> and \<^verbatim>\<open>rdf.LessFunction\<close> are not in the source
  files. The spec calls their results the Serialize, Deserialize and Less contracts of a
  term (value to wire form, wire form to value, comparator). Each is kept as a
  constructor holding its four arguments: package, term name, concrete type, body.
  \<open>codegen_This\<close> is the name under which the generated function receives its argument.
\<close>

definition codegen_This :: string where
  "codegen_This = ''this''"

datatype Function =
    SerializeValueFunction string string Code "Code list"
  | DeserializeValueFunction string string Code "Code list"
  | LessFunction string string Code "Code list"

text \<open>
  \<^verbatim>\<open>url.Parse\<close> belongs to Go's standard library. \<^verbatim>\<open>Apply\<close> calls it on three
  constant strings only, where it returns a URL and no error. The model keeps the raw
  text of the URL and the first rejection \<^verbatim>\<open>net/url\<close> makes, an ASCII control byte.
\<close>

datatype URL = URL string

definition url_Parse :: "string \<Rightarrow> URL option \<times> error option" where
  "url_Parse rawURL =
     (if list_ex (\<lambda>c. (of_char c :: nat) < 32 \<or> (of_char c :: nat) = 127) rawURL
      then (None, Some (Errorf ''net/url: invalid control character in URL''))
      else (Some (URL rawURL), None))"

text \<open>
  \<^verbatim>\<open>VocabularyValue\<close> with the eight fields \<^verbatim>\<open>Apply\<close> assigns. The fields that
  receive pointers are options, nil being \<open>None\<close>.
\<close>

record VocabularyValue =
  Name :: string
  URI :: "URL option"
  DefinitionType :: "Code option"
  Zero :: string
  IsNilable :: bool
  SerializeFn :: "Function option"
  DeserializeFn :: "Function option"
  LessFn :: "Function option"

text \<open>
  Modelled from the spec: the declarations of \<^verbatim>\<open>ParsedVocabulary\<close> and of the
  reference entry \<^verbatim>\<open>GetReference\<close> returns are not in the source files. The spec:
  a Parsed Vocabulary is a mapping from specification URI to a Reference Entry, and a
  Reference Entry holds a mapping from term name to Vocabulary Value. The source reads
  the second mapping as the field \<^verbatim>\<open>Values\<close>.
\<close>

record Vocabulary =
  Values :: "string \<rightharpoonup> VocabularyValue"

record ParsedVocabulary =
  References :: "string \<rightharpoonup> Vocabulary"

text \<open>\<^verbatim>\<open>ParsingContext\<close> of parse.go, lines 17 to 19.\<close>

record ParsingContext =
  Result :: ParsedVocabulary

text \<open>
  Modelled from the spec: \<^verbatim>\<open>GetReference\<close> is not in the source files. The spec:
  ``fetch or create the Reference Entry for this provider's spec URI''. It returns the
  entry and the vocabulary, which holds a new empty entry when there was none.
\<close>

definition GetReference :: "string \<Rightarrow> ParsedVocabulary \<Rightarrow> Vocabulary \<times> ParsedVocabulary" where
  "GetReference uri p =
     (case References p uri of
        Some v \<Rightarrow> (v, p)
      | None \<Rightarrow>
          (\<lparr>Values = Map.empty\<rparr>,
           p\<lparr>References := (References p)(uri \<mapsto> \<lparr>Values = Map.empty\<rparr>)\<rparr>))"

text \<open>
  Modelled from the spec: \<^verbatim>\<open>SetValue\<close> is not in the source files. The spec:
  committing a Vocabulary Value to a free slot stores it; ``committing two different
  Vocabulary Values to the same (spec, term) slot fails with Collision; committing the
  same value twice succeeds silently (no-op)''; a failed commit writes nothing.
\<close>

definition SetValue ::
  "string \<Rightarrow> VocabularyValue \<Rightarrow> Vocabulary \<Rightarrow> error option \<times> Vocabulary" where
  "SetValue name a v =
     (case Values v name of
        None \<Rightarrow> (None, v\<lparr>Values := (Values v)(name \<mapsto> a)\<rparr>)
      | Some b \<Rightarrow> if b = a then (None, v) else (Some Collision, v))"

text \<open>
  \<^verbatim>\<open>ParseVocabulary\<close>, parse.go lines 30 to 33: the nodes are assigned to the blank
  identifier, and the named result \<^verbatim>\<open>vocabulary\<close> is never assigned.
\<close>

definition ParseVocabulary ::
  "'n RDFRegistry \<Rightarrow> JSONLD \<Rightarrow> ParsedVocabulary option \<times> error option" where
  "ParseVocabulary registry input =
     (let vocabulary = None;
          (_, err) = parseJSONLDContext registry input
      in (vocabulary, err))"

section \<open>rfc/ontology.go: the RFC ontology\<close>

definition rfcSpec :: string where
  "rfcSpec = ''https://tools.ietf.org/html/''"

definition bcp47Spec :: string where
  "bcp47Spec = ''bcp47''"

definition mimeSpec :: string where
  "mimeSpec = ''rfc2045''"

definition relSpec :: string where
  "relSpec = ''rfc5988''"

record RFCOntology =
  Package :: string

definition SpecURI :: "RFCOntology \<Rightarrow> string" where
  "SpecURI ont = rfcSpec"

text \<open>
  The three node types are structs with the single field \<^verbatim>\<open>pkg\<close>. A value of the
  interface \<^verbatim>\<open>rdf.RDFNode\<close> made by this package is one of the three.
\<close>

datatype RDFNode = bcp47 string | mime string | rel string

text \<open>\<^verbatim>\<open>strings.TrimPrefix\<close>: the prefix is removed once, when the string starts with it.\<close>

definition strings_TrimPrefix :: "string \<Rightarrow> string \<Rightarrow> string" where
  "strings_TrimPrefix s pre = (if prefix pre s then drop (length pre) s else s)"

definition GetByName :: "RFCOntology \<Rightarrow> string \<Rightarrow> RDFNode option \<times> error option" where
  "GetByName ont name0 =
     (let name = strings_TrimPrefix name0 (SpecURI ont) in
      if name = bcp47Spec then (Some (bcp47 (Package ont)), None)
      else if name = mimeSpec then (Some (mime (Package ont)), None)
      else if name = relSpec then (Some (rel (Package ont)), None)
      else (None, Some (Errorf (''rfc ontology could not find node for name '' @ name))))"

definition bcp47_Enter :: "string \<Rightarrow> string \<Rightarrow> ParsingContext \<Rightarrow> bool \<times> error option" where
  "bcp47_Enter b key ctx = (True, Some (Errorf ''bcp47 langaugetag cannot be entered''))"

definition bcp47_Exit :: "string \<Rightarrow> string \<Rightarrow> ParsingContext \<Rightarrow> bool \<times> error option" where
  "bcp47_Exit b key ctx = (True, Some (Errorf ''bcp47 languagetag cannot be exited''))"

definition mime_Enter :: "string \<Rightarrow> string \<Rightarrow> ParsingContext \<Rightarrow> bool \<times> error option" where
  "mime_Enter m key ctx = (True, Some (Errorf ''MIME media type cannot be entered''))"

definition mime_Exit :: "string \<Rightarrow> string \<Rightarrow> ParsingContext \<Rightarrow> bool \<times> error option" where
  "mime_Exit m key ctx = (True, Some (Errorf ''MIME media type cannot be exited''))"

definition rel_Enter :: "string \<Rightarrow> string \<Rightarrow> ParsingContext \<Rightarrow> bool \<times> error option" where
  "rel_Enter r key ctx = (True, Some (Errorf ''rel cannot be entered''))"

definition rel_Exit :: "string \<Rightarrow> string \<Rightarrow> ParsingContext \<Rightarrow> bool \<times> error option" where
  "rel_Exit r key ctx = (True, Some (Errorf ''rel cannot be exited''))"

text \<open>The method call through the interface value selects the method of the node's type.\<close>

fun Enter :: "RDFNode \<Rightarrow> string \<Rightarrow> ParsingContext \<Rightarrow> bool \<times> error option" where
  "Enter (bcp47 b) key ctx = bcp47_Enter b key ctx"
| "Enter (mime m) key ctx = mime_Enter m key ctx"
| "Enter (rel r) key ctx = rel_Enter r key ctx"

fun Exit :: "RDFNode \<Rightarrow> string \<Rightarrow> ParsingContext \<Rightarrow> bool \<times> error option" where
  "Exit (bcp47 b) key ctx = bcp47_Exit b key ctx"
| "Exit (mime m) key ctx = mime_Exit m key ctx"
| "Exit (rel r) key ctx = rel_Exit r key ctx"

text \<open>
  \<^verbatim>\<open>Apply\<close> receives a pointer to the parsing context and changes it in place: the
  model takes the context and returns the new one with the two results. The pointer is
  not nil (a nil pointer panics at the first line). \<^verbatim>\<open>ctx.Result.GetReference\<close> may
  add an entry to the context, and the \<^verbatim>\<open>v\<close> it returns points to the entry the
  context holds, so what \<^verbatim>\<open>v.SetValue\<close> writes is written to the context:
  \<open>ctx_store\<close> is that write.
\<close>

definition ctx_GetReference :: "string \<Rightarrow> ParsingContext \<Rightarrow> Vocabulary \<times> ParsingContext" where
  "ctx_GetReference uri ctx =
     (let (v, res) = GetReference uri (Result ctx) in (v, ctx\<lparr>Result := res\<rparr>))"

definition ctx_store :: "string \<Rightarrow> Vocabulary \<Rightarrow> ParsingContext \<Rightarrow> ParsingContext" where
  "ctx_store uri v ctx =
     ctx\<lparr>Result := (Result ctx)\<lparr>References := (References (Result ctx))(uri \<mapsto> v)\<rparr>\<rparr>"

definition bcp47_Apply ::
  "string \<Rightarrow> string \<Rightarrow> json \<Rightarrow> ParsingContext \<Rightarrow> (bool \<times> error option) \<times> ParsingContext" where
  "bcp47_Apply b_pkg key value ctx0 =
     (let (v, ctx) = ctx_GetReference rfcSpec ctx0 in
      if length (case Values v bcp47Spec of None \<Rightarrow> [] | Some x \<Rightarrow> Name x) = 0 then
        (case url_Parse (rfcSpec @ bcp47Spec) of
           (u, Some err) \<Rightarrow> ((True, Some err), ctx)
         | (u, None) \<Rightarrow>
             (let val = \<lparr>
                    Name = bcp47Spec,
                    URI = u,
                    DefinitionType = Some jen_String,
                    Zero = [CHR 0x22, CHR 0x22],
                    IsNilable = False,
                    SerializeFn = Some (SerializeValueFunction
                      b_pkg
                      bcp47Spec
                      jen_String
                      [jen_Return [
                         jen_Id codegen_This,
                         jen_Nil]]),
                    DeserializeFn = Some (DeserializeValueFunction
                      b_pkg
                      bcp47Spec
                      jen_String
                      [Statement [
                         jen_If [
                           Statement [
                             jen_List [
                               jen_Id ''s'',
                               jen_Id ''ok''],
                             jen_Op '':='', jen_Id codegen_This, jen_Assert jen_String],
                           jen_Id ''ok''],
                         jen_Block [
                           jen_Return [
                             jen_Id ''s'',
                             jen_Nil]],
                         jen_Else,
                         jen_Block [
                           jen_Return [
                             jen_Lit '''',
                             Statement [
                               jen_Qual ''fmt'' ''Errorf'',
                               jen_Call [
                                 jen_Lit ''%v cannot be interpreted as a string for bcp47 languagetag'',
                                 jen_Id codegen_This]]]]]]),
                    LessFn = Some (LessFunction
                      b_pkg
                      bcp47Spec
                      jen_String
                      [jen_Return [
                         Statement [jen_Id ''lhs'', jen_Op ''<'', jen_Id ''rhs'']]])\<rparr>
              in case SetValue bcp47Spec val v of
                   (Some err, v') \<Rightarrow> ((True, Some err), ctx_store rfcSpec v' ctx)
                 | (None, v') \<Rightarrow> ((True, None), ctx_store rfcSpec v' ctx)))
      else ((True, None), ctx))"

definition mime_Apply ::
  "string \<Rightarrow> string \<Rightarrow> json \<Rightarrow> ParsingContext \<Rightarrow> (bool \<times> error option) \<times> ParsingContext" where
  "mime_Apply m_pkg key value ctx0 =
     (let (v, ctx) = ctx_GetReference rfcSpec ctx0 in
      if length (case Values v mimeSpec of None \<Rightarrow> [] | Some x \<Rightarrow> Name x) = 0 then
        (case url_Parse (rfcSpec @ mimeSpec) of
           (u, Some err) \<Rightarrow> ((True, Some err), ctx)
         | (u, None) \<Rightarrow>
             (let val = \<lparr>
                    Name = mimeSpec,
                    URI = u,
                    DefinitionType = Some jen_String,
                    Zero = [CHR 0x22, CHR 0x22],
                    IsNilable = False,
                    SerializeFn = Some (SerializeValueFunction
                      m_pkg
                      mimeSpec
                      jen_String
                      [jen_Return [
                         jen_Id codegen_This,
                         jen_Nil]]),
                    DeserializeFn = Some (DeserializeValueFunction
                      m_pkg
                      mimeSpec
                      jen_String
                      [Statement [
                         jen_If [
                           Statement [
                             jen_List [
                               jen_Id ''s'',
                               jen_Id ''ok''],
                             jen_Op '':='', jen_Id codegen_This, jen_Assert jen_String],
                           jen_Id ''ok''],
                         jen_Block [
                           jen_Return [
                             jen_Id ''s'',
                             jen_Nil]],
                         jen_Else,
                         jen_Block [
                           jen_Return [
                             jen_Lit '''',
                             Statement [
                               jen_Qual ''fmt'' ''Errorf'',
                               jen_Call [
                                 jen_Lit ''%v cannot be interpreted as a string for MIME media type'',
                                 jen_Id codegen_This]]]]]]),
                    LessFn = Some (LessFunction
                      m_pkg
                      mimeSpec
                      jen_String
                      [jen_Return [
                         Statement [jen_Id ''lhs'', jen_Op ''<'', jen_Id ''rhs'']]])\<rparr>
              in case SetValue mimeSpec val v of
                   (Some err, v') \<Rightarrow> ((True, Some err), ctx_store rfcSpec v' ctx)
                 | (None, v') \<Rightarrow> ((True, None), ctx_store rfcSpec v' ctx)))
      else ((True, None), ctx))"

definition rel_Apply ::
  "string \<Rightarrow> string \<Rightarrow> json \<Rightarrow> ParsingContext \<Rightarrow> (bool \<times> error option) \<times> ParsingContext" where
  "rel_Apply r_pkg key value ctx0 =
     (let (v, ctx) = ctx_GetReference rfcSpec ctx0 in
      if length (case Values v relSpec of None \<Rightarrow> [] | Some x \<Rightarrow> Name x) = 0 then
        (case url_Parse (rfcSpec @ relSpec) of
           (u, Some err) \<Rightarrow> ((True, Some err), ctx)
         | (u, None) \<Rightarrow>
             (let val = \<lparr>
                    Name = relSpec,
                    URI = u,
                    DefinitionType = Some jen_String,
                    Zero = [CHR 0x22, CHR 0x22],
                    IsNilable = False,
                    SerializeFn = Some (SerializeValueFunction
                      r_pkg
                      relSpec
                      jen_String
                      [jen_Return [
                         jen_Id codegen_This,
                         jen_Nil]]),
                    DeserializeFn = Some (DeserializeValueFunction
                      r_pkg
                      relSpec
                      jen_String
                      [Statement [
                         jen_If [
                           Statement [
                             jen_List [
                               jen_Id ''s'',
                               jen_Id ''ok''],
                             jen_Op '':='', jen_Id codegen_This, jen_Assert jen_String],
                           jen_Id ''ok''],
                         jen_Block [
                           jen_Return [
                             jen_Id ''s'',
                             jen_Nil]],
                         jen_Else,
                         jen_Block [
                           jen_Return [
                             jen_Lit '''',
                             Statement [
                               jen_Qual ''fmt'' ''Errorf'',
                               jen_Call [
                                 jen_Lit ''%v cannot be interpreted as a string for rel'',
                                 jen_Id codegen_This]]]]]]),
                    LessFn = Some (LessFunction
                      r_pkg
                      relSpec
                      jen_String
                      [jen_Return [
                         Statement [jen_Id ''lhs'', jen_Op ''<'', jen_Id ''rhs'']]])\<rparr>
              in case SetValue relSpec val v of
                   (Some err, v') \<Rightarrow> ((True, Some err), ctx_store rfcSpec v' ctx)
                 | (None, v') \<Rightarrow> ((True, None), ctx_store rfcSpec v' ctx)))
      else ((True, None), ctx))"

fun Apply ::
  "RDFNode \<Rightarrow> string \<Rightarrow> json \<Rightarrow> ParsingContext \<Rightarrow> (bool \<times> error option) \<times> ParsingContext" where
  "Apply (bcp47 b) key value ctx = bcp47_Apply b key value ctx"
| "Apply (mime m) key value ctx = mime_Apply m key value ctx"
| "Apply (rel r) key value ctx = rel_Apply r key value ctx"

section \<open>Running the generated conversion functions\<close>

text \<open>
  The bodies stored in \<^verbatim>\<open>SerializeFn\<close> and \<^verbatim>\<open>DeserializeFn\<close> are Go code. What
  they compute is fixed by the language: the evaluator below covers the statements and
  expressions these bodies are made of (identifiers, \<^verbatim>\<open>nil\<close>, string literals, a call
  of \<^verbatim>\<open>fmt.Errorf\<close>, \<^verbatim>\<open>return\<close>, and an \<^verbatim>\<open>if\<close> whose initialiser is a comma-ok
  assertion to \<^verbatim>\<open>string\<close>) and is \<open>None\<close> on anything else.

  A run-time value is a dynamic value, an error, or the untyped \<^verbatim>\<open>nil\<close>. How the verb
  \<^verbatim>\<open>%v\<close> of package \<^verbatim>\<open>fmt\<close> prints a value belongs to Go's standard library: it is
  the parameter \<open>fv\<close>.
\<close>

datatype goval = Val json | Err error | NilLit

fun Sprintf :: "(json \<Rightarrow> string) \<Rightarrow> string \<Rightarrow> json list \<Rightarrow> string" where
  "Sprintf fv [] args = []"
| "Sprintf fv [c] args = [c]"
| "Sprintf fv (c # d # rest) args =
     (if c = CHR ''%'' \<and> d = CHR ''v'' then
        (case args of
           [] \<Rightarrow> ''%!v(MISSING)'' @ Sprintf fv rest []
         | a # args' \<Rightarrow> fv a @ Sprintf fv rest args')
      else c # Sprintf fv (d # rest) args)"

fun the_Val :: "goval \<Rightarrow> json option" where
  "the_Val (Val j) = Some j"
| "the_Val _ = None"

fun evalExpr :: "(json \<Rightarrow> string) \<Rightarrow> (string \<rightharpoonup> goval) \<Rightarrow> Code \<Rightarrow> goval option" where
  "evalExpr fv env (jen_Id x) = env x"
| "evalExpr fv env jen_Nil = Some NilLit"
| "evalExpr fv env (jen_Lit s) = Some (Val (JString s))"
| "evalExpr fv env (Statement items) =
     (case items of
        [jen_Qual p f, jen_Call (jen_Lit format # args)] \<Rightarrow>
          (if p = ''fmt'' \<and> f = ''Errorf'' then
             (case those (map (evalExpr fv env) args) of
                Some vs \<Rightarrow>
                  (case those (map the_Val vs) of
                     Some js \<Rightarrow> Some (Err (Errorf (Sprintf fv format js)))
                   | None \<Rightarrow> None)
              | None \<Rightarrow> None)
           else None)
      | _ \<Rightarrow> None)"
| "evalExpr fv env _ = None"

fun exec :: "(json \<Rightarrow> string) \<Rightarrow> (string \<rightharpoonup> goval) \<Rightarrow> Code list \<Rightarrow> goval list option" where
  "exec fv env [] = None"
| "exec fv env (c # rest) =
     (case c of
        jen_Return es \<Rightarrow> those (map (evalExpr fv env) es)
      | Statement items \<Rightarrow>
          (case items of
             [jen_If [Statement [jen_List [jen_Id a, jen_Id b], jen_Op op, x, jen_Assert t],
                      cond],
              jen_Block thn, jen_Else, jen_Block els] \<Rightarrow>
               (if op = '':='' \<and> t = jen_String then
                  (case evalExpr fv env x of
                     Some (Val j) \<Rightarrow>
                       (let (s, ok) = assertString j;
                            env' = env(a \<mapsto> Val (JString s), b \<mapsto> Val (JBool ok)) in
                        case evalExpr fv env' cond of
                          Some (Val (JBool holds)) \<Rightarrow>
                            if holds then exec fv env' thn else exec fv env' els
                        | _ \<Rightarrow> None)
                   | _ \<Rightarrow> None)
                else None)
           | _ \<Rightarrow> None)
      | _ \<Rightarrow> None)"

text \<open>
  Calling a generated function: the body runs with the argument bound to the name
  \<^verbatim>\<open>codegen.This()\<close>, and returns a value and an error. An untyped \<^verbatim>\<open>nil\<close> in the
  first position is the nil interface value, in the second the nil error.
\<close>

fun results :: "goval list option \<Rightarrow> (json \<times> error option) option" where
  "results (Some [Val j, NilLit]) = Some (j, None)"
| "results (Some [Val j, Err e]) = Some (j, Some e)"
| "results (Some [NilLit, NilLit]) = Some (JNull, None)"
| "results (Some [NilLit, Err e]) = Some (JNull, Some e)"
| "results _ = None"

fun callFunction :: "(json \<Rightarrow> string) \<Rightarrow> Function \<Rightarrow> json \<Rightarrow> (json \<times> error option) option" where
  "callFunction fv (SerializeValueFunction pkg name ty impl) this =
     results (exec fv [codegen_This \<mapsto> Val this] impl)"
| "callFunction fv (DeserializeValueFunction pkg name ty impl) this =
     results (exec fv [codegen_This \<mapsto> Val this] impl)"
| "callFunction fv (LessFunction pkg name ty impl) this = None"

section \<open>Reading the result, and example inputs\<close>

text \<open>The value a parsing context holds for a term of a specification, if any.\<close>

definition lookupValue :: "ParsingContext \<Rightarrow> string \<Rightarrow> string \<Rightarrow> VocabularyValue option" where
  "lookupValue ctx uri name =
     (case References (Result ctx) uri of
        None \<Rightarrow> None
      | Some v \<Rightarrow> Values v name)"

text \<open>The term a node of the RFC ontology stands for.\<close>

fun termOf :: "RDFNode \<Rightarrow> string" where
  "termOf (bcp47 b) = bcp47Spec"
| "termOf (mime m) = mimeSpec"
| "termOf (rel r) = relSpec"

text \<open>
  A registry over the RFC ontology, for the examples: a name resolves to the node
  \<^verbatim>\<open>GetByName\<close> finds for it, an inline object to no node.
\<close>

definition exampleOntology :: RFCOntology where
  "exampleOntology = \<lparr>Package = ''rfc''\<rparr>"

definition byName :: "string \<Rightarrow> RDFNode list \<times> error option" where
  "byName name =
     (case GetByName exampleOntology name of
        (Some n, None) \<Rightarrow> ([n], None)
      | (_, err) \<Rightarrow> ([], err))"

definition exampleRegistry :: "RDFNode RDFRegistry" where
  "exampleRegistry =
     \<lparr>getFor = byName,
      getAliased = (\<lambda>alias name. byName name),
      getAliasedObject = (\<lambda>alias obj. ([], None))\<rparr>"

text \<open>The zero value \<^verbatim>\<open>VocabularyValue{}\<close>, and a context that holds it at the term bcp47.\<close>

definition zeroValue :: VocabularyValue where
  "zeroValue =
     \<lparr>Name = [], URI = None, DefinitionType = None, Zero = [], IsNilable = False,
      SerializeFn = None, DeserializeFn = None, LessFn = None\<rparr>"

definition emptyContext :: ParsingContext where
  "emptyContext = \<lparr>Result = \<lparr>References = Map.empty\<rparr>\<rparr>"

definition occupiedContext :: ParsingContext where
  "occupiedContext =
     \<lparr>Result = \<lparr>References = [rfcSpec \<mapsto> \<lparr>Values = [bcp47Spec \<mapsto> zeroValue]\<rparr>]\<rparr>\<rparr>"

text \<open>
  The parsing contexts of a session: the empty context, and what a call of \<^verbatim>\<open>Apply\<close>
  of one of the three nodes makes of such a context.
\<close>

inductive reachable :: "ParsingContext \<Rightarrow> bool" where
  start: "reachable emptyContext"
| step: "reachable ctx \<Longrightarrow> reachable (snd (Apply n key value ctx))"

section \<open>The context resolver\<close>

subsection \<open>The loop over an array\<close>

lemma inArrayLoop_strings:
  "\<forall>s\<in>set ss. snd (getFor registry s) = None \<Longrightarrow>
   inArrayLoop registry (map JString ss) nodes =
     (nodes @ concat (map (\<lambda>s. fst (getFor registry s)) ss), None)"
proof (induction ss arbitrary: nodes)
  case Nil
  then show ?case by simp
next
  case (Cons s ss)
  obtain n where n: "getFor registry s = (n, None)"
    using Cons.prems by (cases "getFor registry s") auto
  have "inArrayLoop registry (map JString (s # ss)) nodes =
        inArrayLoop registry (map JString ss) (nodes @ n)"
    by (simp add: n)
  also have "\<dots> = ((nodes @ n) @ concat (map (\<lambda>s. fst (getFor registry s)) ss), None)"
    using Cons.prems by (intro Cons.IH) simp
  finally show ?case by (simp add: n)
qed


lemma byName_values:
  "byName ''bcp47'' = ([bcp47 ''rfc''], None)"
  "byName ''https://tools.ietf.org/html/rfc2045'' = ([mime ''rfc''], None)"
  "byName ''unknown'' = ([], Some (Errorf ''rfc ontology could not find node for name unknown''))"
  by (simp_all add: byName_def GetByName_def strings_TrimPrefix_def SpecURI_def rfcSpec_def
      bcp47Spec_def mimeSpec_def relSpec_def exampleOntology_def)

subsection \<open>A top-level value that is no array, dictionary or string\<close>

text \<open>
  Claim C1 says that a document whose \<^verbatim>\<open>@context\<close> is neither a sequence, a mapping
  nor a string makes \<^verbatim>\<open>parseJSONLDContext\<close> fail with the error ``single @context
  value is not a string'' and return no nodes. The code assigns that error and then
  returns \<^verbatim>\<open>registry.getFor(s)\<close> with the zero string: for a number, a boolean and null
  the two results are those of the registry's lookup of the empty name, whatever they are,
  and the error assigned before is lost.
\<close>

theorem parseJSONLDContext_scalar_is_getFor_empty:
  "parseJSONLDContext registry [(''@context'', JNumber k)] = getFor registry []
   \<and> parseJSONLDContext registry [(''@context'', JBool b)] = getFor registry []
   \<and> parseJSONLDContext registry [(''@context'', JNull)] = getFor registry []
   \<and> parseJSONLDContext exampleRegistry [(''@context'', JNumber 42)] =
       ([], Some (Errorf ''rfc ontology could not find node for name ''))"
proof -
  have "getFor exampleRegistry [] =
      ([], Some (Errorf ''rfc ontology could not find node for name ''))"
    by (simp add: exampleRegistry_def byName_def GetByName_def strings_TrimPrefix_def
        SpecURI_def rfcSpec_def bcp47Spec_def mimeSpec_def relSpec_def)
  then show ?thesis
    by (simp add: parseJSONLDContext_def JSON_LD_CONTEXT_def)
qed

subsection \<open>The vocabulary pointer\<close>

text \<open>
  Claim C2: for every registry and every document, \<^verbatim>\<open>ParseVocabulary\<close> returns a nil
  vocabulary pointer; the nodes of the resolution are dropped, and only its error is
  passed on.
\<close>

theorem ParseVocabulary_nil:
  "fst (ParseVocabulary registry input) = None
   \<and> snd (ParseVocabulary registry input) = snd (parseJSONLDContext registry input)"
  by (simp add: ParseVocabulary_def split: prod.splits)

subsection \<open>An array of strings\<close>

text \<open>
  Claim C4: when \<^verbatim>\<open>@context\<close> is a sequence of strings and the registry's lookup of
  each succeeds, \<^verbatim>\<open>parseJSONLDContext\<close> returns, with no error, the node lists of the
  lookups concatenated in the order of the sequence; the number of nodes is the sum of
  the numbers the lookups return.
\<close>

theorem parseJSONLDContext_strings:
  assumes "map_of input JSON_LD_CONTEXT = Some (JArray (map JString ss))"
    and "\<forall>s\<in>set ss. snd (getFor registry s) = None"
  shows "parseJSONLDContext registry input =
           (concat (map (\<lambda>s. fst (getFor registry s)) ss), None)
       \<and> length (fst (parseJSONLDContext registry input)) =
           sum_list (map (\<lambda>s. length (fst (getFor registry s))) ss)"
proof -
  have "parseJSONLDContext registry input = inArrayLoop registry (map JString ss) []"
    using assms(1) by (simp add: parseJSONLDContext_def)
  then have eq: "parseJSONLDContext registry input =
           (concat (map (\<lambda>s. fst (getFor registry s)) ss), None)"
    using inArrayLoop_strings [OF assms(2), of "[]"] by simp
  show ?thesis
    by (simp add: eq length_concat comp_def)
qed

theorem parseJSONLDContext_strings_witness:
  "map_of [(''@context'', JArray [JString ''bcp47'',
                                  JString ''https://tools.ietf.org/html/rfc2045''])]
      JSON_LD_CONTEXT =
     Some (JArray (map JString [''bcp47'', ''https://tools.ietf.org/html/rfc2045'']))
   \<and> snd (getFor exampleRegistry ''bcp47'') = None
   \<and> snd (getFor exampleRegistry ''https://tools.ietf.org/html/rfc2045'') = None
   \<and> parseJSONLDContext exampleRegistry
        [(''@context'', JArray [JString ''bcp47'',
                                JString ''https://tools.ietf.org/html/rfc2045''])] =
       ([bcp47 ''rfc'', mime ''rfc''], None)
   \<and> length (fst (parseJSONLDContext exampleRegistry
        [(''@context'', JArray [JString ''bcp47'',
                                JString ''https://tools.ietf.org/html/rfc2045''])])) = 2"
proof -
  let ?ss = "[''bcp47'', ''https://tools.ietf.org/html/rfc2045'']"
  let ?doc = "[(''@context'', JArray (map JString ?ss))]"
  have m: "map_of ?doc JSON_LD_CONTEXT = Some (JArray (map JString ?ss))"
    by (simp add: JSON_LD_CONTEXT_def)
  have g: "\<forall>s\<in>set ?ss. snd (getFor exampleRegistry s) = None"
    by (simp add: exampleRegistry_def byName_values)
  show ?thesis
    using parseJSONLDContext_strings [OF m g] m g
    by (simp add: exampleRegistry_def byName_values)
qed

subsection \<open>No context\<close>

text \<open>
  Claim C8: for every registry and every document without the key \<^verbatim>\<open>@context\<close>,
  \<^verbatim>\<open>parseJSONLDContext\<close> fails with the error ``no @context in input'' and returns an
  empty node list.
\<close>

theorem parseJSONLDContext_no_context:
  "map_of input JSON_LD_CONTEXT = None \<Longrightarrow>
   parseJSONLDContext registry input = ([], Some (Errorf ''no @context in input''))"
  by (simp add: parseJSONLDContext_def)

theorem parseJSONLDContext_no_context_witness:
  "map_of [(''type'', JString ''Note'')] JSON_LD_CONTEXT = None
   \<and> parseJSONLDContext exampleRegistry [(''type'', JString ''Note'')] =
       ([], Some (Errorf ''no @context in input''))"
proof -
  have m: "map_of [(''type'', JString ''Note'')] JSON_LD_CONTEXT = None"
    by (simp add: JSON_LD_CONTEXT_def)
  show ?thesis
    using parseJSONLDContext_no_context [OF m, of exampleRegistry] m by simp
qed

subsection \<open>An array element that is no dictionary and no string\<close>




section \<open>The RFC ontology\<close>

subsection \<open>Lookup by name\<close>

lemma length_rfcSpec: "length rfcSpec = 28"
  by (simp add: rfcSpec_def)

lemma TrimPrefix_SpecURI:
  "strings_TrimPrefix name (SpecURI ont) =
     (if prefix ''https://tools.ietf.org/html/'' name then drop 28 name else name)"
  unfolding strings_TrimPrefix_def SpecURI_def length_rfcSpec
  by (simp add: rfcSpec_def)

text \<open>
  Claim C7: \<^verbatim>\<open>GetByName\<close> removes the prefix ``https://tools.ietf.org/html/'' from the
  name when the name starts with it, returns the bcp47, mime or rel node when what
  remains is ``bcp47'', ``rfc2045'' or ``rfc5988'', and otherwise returns no node and an
  error whose message ends with what remains.
\<close>

theorem GetByName_dispatch:
  "GetByName ont name =
     (let suffix = (if prefix ''https://tools.ietf.org/html/'' name
                    then drop 28 name else name) in
      if suffix = ''bcp47'' then (Some (bcp47 (Package ont)), None)
      else if suffix = ''rfc2045'' then (Some (mime (Package ont)), None)
      else if suffix = ''rfc5988'' then (Some (rel (Package ont)), None)
      else (None, Some (Errorf (''rfc ontology could not find node for name '' @ suffix))))"
  unfolding GetByName_def TrimPrefix_SpecURI
  by (simp add: bcp47Spec_def mimeSpec_def relSpec_def Let_def)

subsection \<open>Enter and Exit\<close>

text \<open>
  Claim C5: for each of the three nodes, every key and every parsing context,
  \<^verbatim>\<open>Enter\<close> returns an error and \<^verbatim>\<open>Exit\<close> returns an error.
\<close>

theorem Enter_Exit_fail:
  "snd (Enter n key ctx) \<noteq> None \<and> snd (Exit n key ctx) \<noteq> None"
  by (cases n)
    (simp_all add: bcp47_Enter_def bcp47_Exit_def mime_Enter_def mime_Exit_def
      rel_Enter_def rel_Exit_def)

subsection \<open>Apply\<close>

text \<open>
  Claim C10: for each of the three nodes, \<^verbatim>\<open>Apply\<close> returns true for every key and
  every value.
\<close>

theorem Apply_true:
  "fst (fst (Apply n key value ctx)) = True"
  by (cases n)
    (simp_all add: bcp47_Apply_def mime_Apply_def rel_Apply_def Let_def
      split: prod.splits option.splits)

lemma spec_nonempty: "bcp47Spec \<noteq> []" "mimeSpec \<noteq> []" "relSpec \<noteq> []"
  by (simp_all add: bcp47Spec_def mimeSpec_def relSpec_def)

text \<open>
  What \<^verbatim>\<open>Apply\<close> does depends on the slot of its term: a value with a name leaves the
  context as it is; a value with the empty name makes the commit fail; a free slot is
  filled with a value named after the term.
\<close>

lemma url_Parse_bcp47:
  "url_Parse (rfcSpec @ bcp47Spec) = (Some (URL (rfcSpec @ bcp47Spec)), None)"
  by (simp add: url_Parse_def rfcSpec_def bcp47Spec_def)

lemma bcp47_populated:
  assumes "lookupValue ctx rfcSpec bcp47Spec = Some x" and "Name x \<noteq> []"
  shows "bcp47_Apply p key value ctx = ((True, None), ctx)"
  using assms
  by (auto simp: bcp47_Apply_def lookupValue_def ctx_GetReference_def GetReference_def
      split: option.splits)

lemma bcp47_collision:
  assumes "lookupValue ctx rfcSpec bcp47Spec = Some x" and "Name x = []"
  shows "bcp47_Apply p key value ctx = ((True, Some Collision), ctx)"
  using assms spec_nonempty
  by (auto simp: bcp47_Apply_def lookupValue_def ctx_GetReference_def GetReference_def
      url_Parse_bcp47 SetValue_def ctx_store_def map_upd_triv
      split: option.splits)

lemma bcp47_fresh:
  assumes "lookupValue ctx rfcSpec bcp47Spec = None"
  shows "\<exists>val. fst (bcp47_Apply p key value ctx) = (True, None)
     \<and> lookupValue (snd (bcp47_Apply p key value ctx)) rfcSpec bcp47Spec = Some val
     \<and> Name val = bcp47Spec"
  using assms
  by (auto simp: bcp47_Apply_def lookupValue_def ctx_GetReference_def GetReference_def
      url_Parse_bcp47 SetValue_def ctx_store_def
      split: option.splits)

lemma url_Parse_mime:
  "url_Parse (rfcSpec @ mimeSpec) = (Some (URL (rfcSpec @ mimeSpec)), None)"
  by (simp add: url_Parse_def rfcSpec_def mimeSpec_def)

lemma mime_populated:
  assumes "lookupValue ctx rfcSpec mimeSpec = Some x" and "Name x \<noteq> []"
  shows "mime_Apply p key value ctx = ((True, None), ctx)"
  using assms
  by (auto simp: mime_Apply_def lookupValue_def ctx_GetReference_def GetReference_def
      split: option.splits)

lemma mime_collision:
  assumes "lookupValue ctx rfcSpec mimeSpec = Some x" and "Name x = []"
  shows "mime_Apply p key value ctx = ((True, Some Collision), ctx)"
  using assms spec_nonempty
  by (auto simp: mime_Apply_def lookupValue_def ctx_GetReference_def GetReference_def
      url_Parse_mime SetValue_def ctx_store_def map_upd_triv
      split: option.splits)

lemma mime_fresh:
  assumes "lookupValue ctx rfcSpec mimeSpec = None"
  shows "\<exists>val. fst (mime_Apply p key value ctx) = (True, None)
     \<and> lookupValue (snd (mime_Apply p key value ctx)) rfcSpec mimeSpec = Some val
     \<and> Name val = mimeSpec"
  using assms
  by (auto simp: mime_Apply_def lookupValue_def ctx_GetReference_def GetReference_def
      url_Parse_mime SetValue_def ctx_store_def
      split: option.splits)

lemma url_Parse_rel:
  "url_Parse (rfcSpec @ relSpec) = (Some (URL (rfcSpec @ relSpec)), None)"
  by (simp add: url_Parse_def rfcSpec_def relSpec_def)

lemma rel_populated:
  assumes "lookupValue ctx rfcSpec relSpec = Some x" and "Name x \<noteq> []"
  shows "rel_Apply p key value ctx = ((True, None), ctx)"
  using assms
  by (auto simp: rel_Apply_def lookupValue_def ctx_GetReference_def GetReference_def
      split: option.splits)

lemma rel_collision:
  assumes "lookupValue ctx rfcSpec relSpec = Some x" and "Name x = []"
  shows "rel_Apply p key value ctx = ((True, Some Collision), ctx)"
  using assms spec_nonempty
  by (auto simp: rel_Apply_def lookupValue_def ctx_GetReference_def GetReference_def
      url_Parse_rel SetValue_def ctx_store_def map_upd_triv
      split: option.splits)

lemma rel_fresh:
  assumes "lookupValue ctx rfcSpec relSpec = None"
  shows "\<exists>val. fst (rel_Apply p key value ctx) = (True, None)
     \<and> lookupValue (snd (rel_Apply p key value ctx)) rfcSpec relSpec = Some val
     \<and> Name val = relSpec"
  using assms
  by (auto simp: rel_Apply_def lookupValue_def ctx_GetReference_def GetReference_def
      url_Parse_rel SetValue_def ctx_store_def
      split: option.splits)

lemma Apply_populated:
  assumes "lookupValue ctx rfcSpec (termOf n) = Some x" and "Name x \<noteq> []"
  shows "Apply n key value ctx = ((True, None), ctx)"
  using assms
  by (cases n) (simp_all add: bcp47_populated mime_populated rel_populated)

lemma Apply_collision:
  assumes "lookupValue ctx rfcSpec (termOf n) = Some x" and "Name x = []"
  shows "Apply n key value ctx = ((True, Some Collision), ctx)"
  using assms
  by (cases n) (simp_all add: bcp47_collision mime_collision rel_collision)

lemma Apply_fresh:
  assumes "lookupValue ctx rfcSpec (termOf n) = None"
  shows "\<exists>val. fst (Apply n key value ctx) = (True, None)
     \<and> lookupValue (snd (Apply n key value ctx)) rfcSpec (termOf n) = Some val
     \<and> Name val = termOf n"
proof (cases n)
  case (bcp47 p)
  then show ?thesis
    using assms bcp47_fresh [of ctx p key "value"] by simp
next
  case (mime p)
  then show ?thesis
    using assms mime_fresh [of ctx p key "value"] by simp
next
  case (rel p)
  then show ?thesis
    using assms rel_fresh [of ctx p key "value"] by simp
qed

lemma termOf_nonempty: "termOf n \<noteq> []"
  by (cases n) (simp_all add: spec_nonempty)

text \<open>
  A call of \<^verbatim>\<open>Apply\<close> changes no slot but the one of its term, and what it stores
  there is named after the term. So every value a context of a session holds has a name.
\<close>

lemma bcp47_lookup:
  "lookupValue (snd (bcp47_Apply p key value ctx)) uri name = Some x \<Longrightarrow>
   lookupValue ctx uri name = Some x \<or> Name x = bcp47Spec"
  by (auto simp: bcp47_Apply_def lookupValue_def ctx_GetReference_def GetReference_def
      url_Parse_bcp47 SetValue_def ctx_store_def Let_def
      split: option.splits if_splits)

lemma mime_lookup:
  "lookupValue (snd (mime_Apply p key value ctx)) uri name = Some x \<Longrightarrow>
   lookupValue ctx uri name = Some x \<or> Name x = mimeSpec"
  by (auto simp: mime_Apply_def lookupValue_def ctx_GetReference_def GetReference_def
      url_Parse_mime SetValue_def ctx_store_def Let_def
      split: option.splits if_splits)

lemma rel_lookup:
  "lookupValue (snd (rel_Apply p key value ctx)) uri name = Some x \<Longrightarrow>
   lookupValue ctx uri name = Some x \<or> Name x = relSpec"
  by (auto simp: rel_Apply_def lookupValue_def ctx_GetReference_def GetReference_def
      url_Parse_rel SetValue_def ctx_store_def Let_def
      split: option.splits if_splits)

lemma Apply_lookup:
  "lookupValue (snd (Apply n key value ctx)) uri name = Some x \<Longrightarrow>
   lookupValue ctx uri name = Some x \<or> Name x = termOf n"
  by (cases n) (auto dest: bcp47_lookup mime_lookup rel_lookup)

lemma reachable_named:
  "reachable ctx \<Longrightarrow> lookupValue ctx uri name = Some x \<Longrightarrow> Name x \<noteq> []"
proof (induction arbitrary: uri name x rule: reachable.induct)
  case start
  then show ?case by (simp add: lookupValue_def emptyContext_def)
next
  case (step ctx n key "value")
  from Apply_lookup [OF step.prems] show ?case
  proof
    assume "lookupValue ctx uri name = Some x"
    then show ?thesis by (rule step.IH)
  next
    assume "Name x = termOf n"
    then show ?thesis by (simp add: termOf_nonempty)
  qed
qed

text \<open>
  A context whose slot holds the zero value, which has no name, is none of them. There
  the commit of \<^verbatim>\<open>Apply\<close> is refused and the context stays as it is.
\<close>

lemma occupiedContext_not_reachable: "\<not> reachable occupiedContext"
proof
  assume "reachable occupiedContext"
  moreover have "lookupValue occupiedContext rfcSpec bcp47Spec = Some zeroValue"
    by (simp add: lookupValue_def occupiedContext_def)
  ultimately have "Name zeroValue \<noteq> []" by (rule reachable_named)
  then show False by (simp add: zeroValue_def)
qed

lemma Apply_occupiedContext:
  "Apply (bcp47 ''rfc'') ''name'' (JString ''en'') occupiedContext =
     ((True, Some Collision), occupiedContext)"
proof -
  have l: "lookupValue occupiedContext rfcSpec (termOf (bcp47 ''rfc'')) = Some zeroValue"
    by (simp add: lookupValue_def occupiedContext_def)
  have z: "Name zeroValue = []"
    by (simp add: zeroValue_def)
  show ?thesis
    by (rule Apply_collision [OF l z])
qed

text \<open>
  Claim C3: for each of the three nodes, every key and every value, calling
  \<^verbatim>\<open>Apply\<close> twice against a parsing context yields the parsed vocabulary that calling
  it once yields: the first call returns no error, after it the slot of the term holds a
  value with a non-empty name, and the second call writes nothing and returns no error.
  The parsing context is one in which the slot of the node's term is free or holds a value
  with a name; by \<open>reachable_named\<close> every context of a session is one.
\<close>

theorem Apply_idempotent:
  assumes "\<forall>x. lookupValue ctx rfcSpec (termOf n) = Some x \<longrightarrow> Name x \<noteq> []"
  shows "snd (Apply n key value (snd (Apply n key value ctx))) = snd (Apply n key value ctx)
   \<and> fst (Apply n key value ctx) = (True, None)
   \<and> (\<exists>val. lookupValue (snd (Apply n key value ctx)) rfcSpec (termOf n) = Some val
         \<and> Name val \<noteq> [])
   \<and> fst (Apply n key value (snd (Apply n key value ctx))) = (True, None)"
proof (cases "lookupValue ctx rfcSpec (termOf n)")
  case None
  from Apply_fresh [OF None, of key "value"] obtain val where
    r: "fst (Apply n key value ctx) = (True, None)"
    and l: "lookupValue (snd (Apply n key value ctx)) rfcSpec (termOf n) = Some val"
    and nm: "Name val = termOf n"
    by blast
  have ne: "Name val \<noteq> []"
    by (simp add: nm termOf_nonempty)
  have "Apply n key value (snd (Apply n key value ctx)) =
        ((True, None), snd (Apply n key value ctx))"
    by (rule Apply_populated [OF l ne])
  with r l ne show ?thesis by simp
next
  case (Some x)
  with assms have ne: "Name x \<noteq> []" by simp
  have "Apply n key value ctx = ((True, None), ctx)"
    by (rule Apply_populated [OF Some ne])
  with Some ne show ?thesis by simp
qed

theorem Apply_idempotent_witness:
  "lookupValue emptyContext rfcSpec (termOf (mime ''rfc'')) = None
   \<and> fst (Apply (mime ''rfc'') ''mediaType'' (JString ''text/html'') emptyContext) =
       (True, None)
   \<and> fst (Apply (mime ''rfc'') ''mediaType'' (JString ''text/html'')
        (snd (Apply (mime ''rfc'') ''mediaType'' (JString ''text/html'') emptyContext))) =
       (True, None)
   \<and> snd (Apply (mime ''rfc'') ''mediaType'' (JString ''text/html'')
        (snd (Apply (mime ''rfc'') ''mediaType'' (JString ''text/html'') emptyContext))) =
       snd (Apply (mime ''rfc'') ''mediaType'' (JString ''text/html'') emptyContext)"
proof -
  have l: "lookupValue emptyContext rfcSpec (termOf (mime ''rfc'')) = None"
    by (simp add: lookupValue_def emptyContext_def)
  then have h: "\<forall>x. lookupValue emptyContext rfcSpec (termOf (mime ''rfc'')) = Some x
      \<longrightarrow> Name x \<noteq> []"
    by simp
  show ?thesis
    using Apply_idempotent [OF h, of "''mediaType''" "JString ''text/html''"] l
    by simp
qed

section \<open>The conversion functions of the term bcp47\<close>

lemma Sprintf_plain: "CHR ''%'' \<notin> set cs \<Longrightarrow> Sprintf fv cs args = cs"
  by (induction fv cs args rule: Sprintf.induct) auto

lemma call_Serialize:
  "callFunction fv
     (SerializeValueFunction p nm ty [jen_Return [jen_Id codegen_This, jen_Nil]]) x =
   Some (x, None)"
  by simp

lemma call_Deserialize_string:
  "callFunction fv (DeserializeValueFunction p nm ty
      [Statement [
         jen_If [
           Statement [jen_List [jen_Id ''s'', jen_Id ''ok''],
                      jen_Op '':='', jen_Id codegen_This, jen_Assert jen_String],
           jen_Id ''ok''],
         jen_Block [jen_Return [jen_Id ''s'', jen_Nil]],
         jen_Else,
         jen_Block [jen_Return [jen_Lit '''',
           Statement [jen_Qual ''fmt'' ''Errorf'',
                      jen_Call [jen_Lit (CHR ''%'' # CHR ''v'' # msg),
                                jen_Id codegen_This]]]]]])
      (JString s) = Some (JString s, None)"
  by (simp add: codegen_This_def)

lemma call_Deserialize_other:
  assumes "\<forall>s. j \<noteq> JString s" and "CHR ''%'' \<notin> set msg"
  shows "callFunction fv (DeserializeValueFunction p nm ty
      [Statement [
         jen_If [
           Statement [jen_List [jen_Id ''s'', jen_Id ''ok''],
                      jen_Op '':='', jen_Id codegen_This, jen_Assert jen_String],
           jen_Id ''ok''],
         jen_Block [jen_Return [jen_Id ''s'', jen_Nil]],
         jen_Else,
         jen_Block [jen_Return [jen_Lit '''',
           Statement [jen_Qual ''fmt'' ''Errorf'',
                      jen_Call [jen_Lit (CHR ''%'' # CHR ''v'' # msg),
                                jen_Id codegen_This]]]]]])
      j = Some (JString [], Some (Errorf (fv j @ msg)))"
proof -
  have a: "assertString j = ([], False)"
    using assms(1) by (cases j) simp_all
  show ?thesis
    using assms(2) by (simp add: codegen_This_def a Sprintf_plain)
qed

lemma bcp47_fresh_fns:
  assumes "lookupValue ctx rfcSpec bcp47Spec = None"
  shows "\<exists>val. lookupValue (snd (bcp47_Apply p key value ctx)) rfcSpec bcp47Spec = Some val
     \<and> SerializeFn val = Some (SerializeValueFunction p bcp47Spec jen_String
           [jen_Return [jen_Id codegen_This, jen_Nil]])
     \<and> DeserializeFn val = Some (DeserializeValueFunction p bcp47Spec jen_String
      [Statement [
         jen_If [
           Statement [jen_List [jen_Id ''s'', jen_Id ''ok''],
                      jen_Op '':='', jen_Id codegen_This, jen_Assert jen_String],
           jen_Id ''ok''],
         jen_Block [jen_Return [jen_Id ''s'', jen_Nil]],
         jen_Else,
         jen_Block [jen_Return [jen_Lit '''',
           Statement [jen_Qual ''fmt'' ''Errorf'',
                      jen_Call [jen_Lit (CHR ''%'' # CHR ''v'' # '' cannot be interpreted as a string for bcp47 languagetag''),
                                jen_Id codegen_This]]]]]])"
  using assms
  by (auto simp: bcp47_Apply_def lookupValue_def ctx_GetReference_def GetReference_def
      url_Parse_bcp47 SetValue_def ctx_store_def
      split: option.splits)

text \<open>
  Claim C6: the conversion functions that \<^verbatim>\<open>Apply\<close> of the node bcp47 attaches when
  it fills the free slot of its term: Serialize returns its argument and no error;
  Deserialize of what Serialize returns for a string is that string, with no error;
  Deserialize of a value that is no string returns an error whose message starts with
  the value as \<^verbatim>\<open>%v\<close> prints it.
\<close>

theorem bcp47_contracts:
  assumes "lookupValue ctx rfcSpec bcp47Spec = None"
  shows "\<exists>val ser de.
       lookupValue (snd (Apply (bcp47 p) key value ctx)) rfcSpec bcp47Spec = Some val
     \<and> SerializeFn val = Some ser \<and> DeserializeFn val = Some de
     \<and> (\<forall>x. callFunction fv ser x = Some (x, None))
     \<and> (\<forall>s. \<exists>w. callFunction fv ser (JString s) = Some (w, None)
              \<and> callFunction fv de w = Some (JString s, None))
     \<and> (\<forall>j. (\<forall>s. j \<noteq> JString s) \<longrightarrow>
            callFunction fv de j =
              Some (JString [], Some (Errorf
                (fv j @ '' cannot be interpreted as a string for bcp47 languagetag''))))"
proof -
  let ?m = "'' cannot be interpreted as a string for bcp47 languagetag''"
  have pc: "CHR ''%'' \<notin> set ?m" by simp
  from bcp47_fresh_fns [OF assms, of p key "value"] obtain val ser de where
    l: "lookupValue (snd (bcp47_Apply p key value ctx)) rfcSpec bcp47Spec = Some val"
    and s: "SerializeFn val = Some ser"
    and sd: "ser = SerializeValueFunction p bcp47Spec jen_String
           [jen_Return [jen_Id codegen_This, jen_Nil]]"
    and d: "DeserializeFn val = Some de"
    and dd: "de = DeserializeValueFunction p bcp47Spec jen_String
      [Statement [
         jen_If [
           Statement [jen_List [jen_Id ''s'', jen_Id ''ok''],
                      jen_Op '':='', jen_Id codegen_This, jen_Assert jen_String],
           jen_Id ''ok''],
         jen_Block [jen_Return [jen_Id ''s'', jen_Nil]],
         jen_Else,
         jen_Block [jen_Return [jen_Lit '''',
           Statement [jen_Qual ''fmt'' ''Errorf'',
                      jen_Call [jen_Lit (CHR ''%'' # CHR ''v'' # ?m),
                                jen_Id codegen_This]]]]]]"
    by auto
  have 1: "\<forall>x. callFunction fv ser x = Some (x, None)"
    unfolding sd by (simp only: call_Serialize) simp
  have 2: "\<forall>s. callFunction fv de (JString s) = Some (JString s, None)"
    unfolding dd by (simp only: call_Deserialize_string) simp
  have 3: "\<forall>j. (\<forall>s. j \<noteq> JString s) \<longrightarrow>
            callFunction fv de j = Some (JString [], Some (Errorf (fv j @ ?m)))"
    unfolding dd using call_Deserialize_other [OF _ pc] by blast
  show ?thesis
    using l s d 1 2 3 by (simp only: Apply.simps) blast
qed

theorem bcp47_contracts_witness:
  "lookupValue emptyContext rfcSpec bcp47Spec = None
   \<and> (\<exists>val ser de.
       lookupValue (snd (Apply (bcp47 ''rfc'') ''x'' (JString ''en-US'') emptyContext))
         rfcSpec bcp47Spec = Some val
     \<and> SerializeFn val = Some ser \<and> DeserializeFn val = Some de
     \<and> callFunction (\<lambda>j. ''42'') ser (JString ''en-US'') = Some (JString ''en-US'', None)
     \<and> callFunction (\<lambda>j. ''42'') de (JString ''en-US'') = Some (JString ''en-US'', None)
     \<and> callFunction (\<lambda>j. ''42'') de (JNumber 42) =
         Some (JString [], Some (Errorf
           ''42 cannot be interpreted as a string for bcp47 languagetag'')))"
proof -
  have l: "lookupValue emptyContext rfcSpec bcp47Spec = None"
    by (simp add: lookupValue_def emptyContext_def)
  have n: "\<forall>s. JNumber 42 \<noteq> JString s"
    by simp
  from bcp47_contracts [OF l, of "''rfc''" "''x''" "JString ''en-US''" "\<lambda>j. ''42''"]
  obtain val ser de where
    "lookupValue (snd (Apply (bcp47 ''rfc'') ''x'' (JString ''en-US'') emptyContext))
       rfcSpec bcp47Spec = Some val"
    and "SerializeFn val = Some ser" and "DeserializeFn val = Some de"
    and "\<forall>x. callFunction (\<lambda>j. ''42'') ser x = Some (x, None)"
    and "\<forall>s. \<exists>w. callFunction (\<lambda>j. ''42'') ser (JString s) = Some (w, None)
              \<and> callFunction (\<lambda>j. ''42'') de w = Some (JString s, None)"
    and "\<forall>j. (\<forall>s. j \<noteq> JString s) \<longrightarrow>
            callFunction (\<lambda>j. ''42'') de j =
              Some (JString [], Some (Errorf
                (''42'' @ '' cannot be interpreted as a string for bcp47 languagetag'')))"
    by blast
  with l n show ?thesis
    by (intro conjI exI [of _ val] exI [of _ ser] exI [of _ de]) auto
qed

end
